theory Spec2Isabelle
  imports Complex_Main
begin

section \<open>JavaScript values shared by the two controllers\<close>

text \<open>
  The repository holds two variants of one browser controller: \<^verbatim>\<open>public/app.js\<close> downloads
  the selected items one request after the other, \<^verbatim>\<open>static/app.js\<close> subscribes to a
  server-sent event stream. Both keep their state in module-level variables and in the DOM.

  Strings are lists of characters; a character stands for one code unit below 256. Numbers
  shown in the page are exact (naturals and rationals); the rounding of JavaScript's doubles
  is not modelled.
\<close>

subsection \<open>Set and DOMTokenList\<close>

text \<open>
  A JavaScript \<^verbatim>\<open>Set\<close> holds no duplicates and iterates in insertion order; it is a list
  without duplicates. \<^verbatim>\<open>add\<close> of a member changes nothing, \<^verbatim>\<open>add\<close> of a
  new value appends it, \<^verbatim>\<open>delete\<close> removes it. A \<^verbatim>\<open>classList\<close> behaves the same way.
\<close>

definition Set_has :: "'a \<Rightarrow> 'a list \<Rightarrow> bool" where
  "Set_has x xs = (x \<in> set xs)"

definition Set_add :: "'a \<Rightarrow> 'a list \<Rightarrow> 'a list" where
  "Set_add x xs = (if x \<in> set xs then xs else xs @ [x])"

definition Set_delete :: "'a \<Rightarrow> 'a list \<Rightarrow> 'a list" where
  "Set_delete x xs = removeAll x xs"

text \<open>\<^verbatim>\<open>new Set(array)\<close> adds the elements of the array from left to right.\<close>

definition Set_new :: "'a list \<Rightarrow> 'a list" where
  "Set_new xs = foldl (\<lambda>acc x. Set_add x acc) [] xs"

subsection \<open>Optional strings, numbers as text\<close>

text \<open>
  A field that may be missing is an \<open>option\<close>; JavaScript treats a missing field and the
  empty string alike in a condition (\<^verbatim>\<open>a || b\<close>, \<^verbatim>\<open>a ? b : c\<close>).
\<close>

definition truthy :: "string option \<Rightarrow> bool" where
  "truthy x = (case x of None \<Rightarrow> False | Some t \<Rightarrow> t \<noteq> [])"

text \<open>\<^verbatim>\<open>a || d\<close> on an optional string \<open>a\<close> and a default \<open>d\<close>.\<close>

definition or_else :: "string option \<Rightarrow> string \<Rightarrow> string" where
  "or_else x d = (case x of None \<Rightarrow> d | Some t \<Rightarrow> if t = [] then d else t)"

definition digit_char :: "nat \<Rightarrow> char" where
  "digit_char d = ''0123456789'' ! d"

text \<open>The decimal text of a natural number, as a template literal prints it.\<close>

fun string_of_nat :: "nat \<Rightarrow> string" where
  "string_of_nat n =
     (if n < 10 then [digit_char n]
      else string_of_nat (n div 10) @ [digit_char (n mod 10)])"

declare string_of_nat.simps [simp del]

text \<open>
  \<^verbatim>\<open>String.prototype.trim\<close> removes white space at both ends; among the code units
  below 256 these are tab to carriage return, the space and the no-break space.
\<close>

definition is_js_space :: "char \<Rightarrow> bool" where
  "is_js_space c = (c \<in> set [CHR 0x09, CHR 0x0A, CHR 0x0B, CHR 0x0C, CHR 0x0D, CHR 0x20, CHR 0xA0])"

definition trim :: "string \<Rightarrow> string" where
  "trim t = rev (dropWhile is_js_space (rev (dropWhile is_js_space t)))"

definition startsWith :: "string \<Rightarrow> string \<Rightarrow> bool" where
  "startsWith t p = (take (length p) t = p)"

section \<open>Escaping (both files, the same text)\<close>

text \<open>
  \<^verbatim>\<open>text.replace(/c/g, r)\<close> replaces every occurrence of the character \<open>c\<close> by \<open>r\<close>.
\<close>

definition replace_all :: "char \<Rightarrow> string \<Rightarrow> string \<Rightarrow> string" where
  "replace_all c r t = concat (map (\<lambda>x. if x = c then r else [x]) t)"

text \<open>\<^verbatim>\<open>escapeAttr\<close>: five replacements, one after the other, the ampersand first.\<close>

definition escapeAttr :: "string \<Rightarrow> string" where
  \<open>escapeAttr t =
     replace_all (CHR ''>'') ''&gt;''
       (replace_all (CHR ''<'') ''&lt;''
         (replace_all (CHR 0x27) ''&#39;''
           (replace_all (CHR 0x22) ''&quot;''
             (replace_all (CHR ''&'') ''&amp;'' t))))\<close>

text \<open>
  \<^verbatim>\<open>escapeHtml\<close> has the browser do the work: it stores the text in the
  \<^verbatim>\<open>textContent\<close> of a fresh element, which makes one text node, and reads
  \<^verbatim>\<open>innerHTML\<close> back. The HTML standard serialises a text node by replacing the
  ampersand, the no-break space, \<open><\<close> and \<open>>\<close>; outside an attribute, quotes stay as
  they are.
\<close>

definition serialize_text_char :: "char \<Rightarrow> string" where
  \<open>serialize_text_char c =
     (if c = CHR ''&'' then ''&amp;''
      else if c = CHR 0xA0 then ''&nbsp;''
      else if c = CHR ''<'' then ''&lt;''
      else if c = CHR ''>'' then ''&gt;''
      else [c])\<close>

definition escapeHtml :: "string \<Rightarrow> string" where
  "escapeHtml t = concat (map serialize_text_char t)"

section \<open>The page and the module state\<close>

text \<open>An item of the playlist, as the extraction service returns it.\<close>

record video =
  video_id :: string
  title :: string
  url :: string
  thumbnail :: "string option"
  duration_str :: "string option"
  uploader :: "string option"

text \<open>
  A card of the grid: the identifier in its \<^verbatim>\<open>dataset\<close>, its class list, the markup
  assigned to its \<^verbatim>\<open>innerHTML\<close> when it is rendered, and the three parts of it that
  change later (the status icon, the width of the progress fill in percent, and the error
  text).
\<close>

record card =
  dataset_videoId :: string
  classList :: "string list"
  card_innerHTML :: string
  status_icon_innerHTML :: string
  fill_width :: "rat option"
  error_msg_textContent :: string

text \<open>What the controller sends out; the log keeps the order.\<close>

datatype effect =
    PostExtract string
  | PostDownload string string string
  | SaveBlob string
  | DeleteSession string
  | OpenEventSource "string option" "string list" string
  | WindowOpen string

text \<open>
  The module-level variables of both files and the elements they write to.
  \<open>sessionId\<close>, \<open>playlistTitle\<close> and the ZIP section exist only in
  \<^verbatim>\<open>static/app.js\<close>, \<open>isDownloading\<close> only in \<^verbatim>\<open>public/app.js\<close>; the other
  variant's functions leave them alone.
\<close>

record app =
  sessionId :: "string option"
  playlistTitle :: string
  videos :: "video list"
  selectedIds :: "string list"
  downloadedIds :: "string list"
  errorIds :: "string list"
  allSelected :: bool
  selectedFormat :: string
  isDownloading :: bool
  urlInput_value :: string
  extractBtn_disabled :: bool
  errorMsg_textContent :: string
  errorMsg_hidden :: bool
  inputSection_hidden :: bool
  loadingSection_hidden :: bool
  resultsSection_hidden :: bool
  videoGrid :: "card list"
  playlistTitleEl_textContent :: string
  videoCountEl_textContent :: string
  selectAllBtn_textContent :: string
  selectAllBtn_disabled :: bool
  downloadSelectedBtn_textContent :: string
  downloadSelectedBtn_disabled :: bool
  downloadBar_hidden :: bool
  downloadStatus_textContent :: string
  overallProgress_textContent :: string
  overallProgressFill_width :: rat
  overallProgressFill_complete :: bool
  zipSection_hidden :: bool
  zipSubtitle_textContent :: string
  effects :: "effect list"

text \<open>
  The state when the script has loaded. The page starts on the input section; the texts of
  the elements come from the HTML page, which the scripts do not set, and are left empty.
\<close>

definition initial :: app where
  "initial =
     \<lparr> sessionId = None, playlistTitle = [], videos = [], selectedIds = [],
       downloadedIds = [], errorIds = [], allSelected = True, selectedFormat = ''mp3'',
       isDownloading = False, urlInput_value = [], extractBtn_disabled = False,
       errorMsg_textContent = [], errorMsg_hidden = True, inputSection_hidden = False,
       loadingSection_hidden = True, resultsSection_hidden = True, videoGrid = [],
       playlistTitleEl_textContent = [], videoCountEl_textContent = [],
       selectAllBtn_textContent = [], selectAllBtn_disabled = False,
       downloadSelectedBtn_textContent = [],
       downloadSelectedBtn_disabled = False, downloadBar_hidden = True,
       downloadStatus_textContent = [], overallProgress_textContent = [],
       overallProgressFill_width = 0, overallProgressFill_complete = False,
       zipSection_hidden = True, zipSubtitle_textContent = [], effects = [] \<rparr>"

text \<open>
  The body of a successful answer of \<^verbatim>\<open>POST /api/extract\<close>; only the event-stream
  service sends a session identifier.
\<close>

record extract_data =
  data_session_id :: "string option"
  data_title :: string
  data_videos :: "video list"

text \<open>The counters a run keeps in local variables.\<close>

record counts =
  completedCount :: nat
  errorCount :: nat
  totalCount :: nat

text \<open>
  The run of \<^verbatim>\<open>static/app.js\<close> also holds its event source; closed, it delivers nothing
  more.
\<close>

record stream = counts +
  evtSource_closed :: bool

text \<open>
  A message of the event stream, decoded: \<^verbatim>\<open>event_type\<close> and the fields that come with
  some of the types.
\<close>

record sse_data =
  event_type :: string
  event_video_id :: string
  event_title :: "string option"
  event_percent :: "rat option"
  event_speed :: "string option"
  event_message :: "string option"

text \<open>
  \<^verbatim>\<open>truncate(str, maxLen)\<close>: a missing or empty string gives the empty string, a longer
  one is cut and followed by three dots.
\<close>

definition truncate :: "string option \<Rightarrow> nat \<Rightarrow> string" where
  "truncate str maxLen =
     (case str of
        None \<Rightarrow> []
      | Some t \<Rightarrow>
          if t = [] then []
          else if length t > maxLen then take maxLen t @ ''...'' else t)"

subsection \<open>Sections and the error line\<close>

definition showSection :: "string \<Rightarrow> app \<Rightarrow> app" where
  "showSection name s =
     s\<lparr> inputSection_hidden := (name \<noteq> ''input''),
        loadingSection_hidden := (name \<noteq> ''loading''),
        resultsSection_hidden := (name \<noteq> ''results'') \<rparr>"

definition showError :: "string \<Rightarrow> app \<Rightarrow> app" where
  "showError msg s = s\<lparr> errorMsg_textContent := msg, errorMsg_hidden := False \<rparr>"

definition hideError :: "app \<Rightarrow> app" where
  "hideError s = s\<lparr> errorMsg_hidden := True \<rparr>"

subsection \<open>Cards\<close>

definition nl :: string where
  "nl = [CHR 0x0A]"

text \<open>
  The template literal assigned to \<^verbatim>\<open>card.innerHTML\<close> in \<^verbatim>\<open>renderVideoGrid\<close>, line by
  line. The thumbnail falls back to an address made from the identifier.
\<close>

definition thumbUrl :: "video \<Rightarrow> string" where
  "thumbUrl v = or_else (thumbnail v) (''https://i.ytimg.com/vi/'' @ video_id v @ ''/hqdefault.jpg'')"

definition duration_badge :: "video \<Rightarrow> string" where
  \<open>duration_badge v =
     (if truthy (duration_str v)
      then ''<span class="duration-badge">'' @ escapeHtml (the (duration_str v)) @ ''</span>''
      else [])\<close>

definition meta_text :: "video \<Rightarrow> string" where
  "meta_text v = (if truthy (uploader v) then escapeHtml (the (uploader v)) else [])"

definition card_markup :: "video \<Rightarrow> string" where
  \<open>card_markup v =
     nl @ ''      <div class="thumbnail-wrap">'' @
     nl @ ''        <img class="thumbnail"'' @
     nl @ ''             src="'' @ escapeAttr (thumbUrl v) @ ''"'' @
     nl @ ''             alt="'' @ escapeAttr (title v) @ ''"'' @
     nl @ ''             loading="lazy"'' @
     nl @ ''             onerror="this.style.display='none'">'' @
     nl @ ''        '' @ duration_badge v @
     nl @ ''        <div class="check-circle">&#10003;</div>'' @
     nl @ ''        <div class="status-icon"></div>'' @
     nl @ ''      </div>'' @
     nl @ ''      <div class="info">'' @
     nl @ ''        <div class="title">'' @ escapeHtml (title v) @ ''</div>'' @
     nl @ ''        <div class="meta">'' @ meta_text v @ ''</div>'' @
     nl @ ''      </div>'' @
     nl @ ''      <div class="progress-overlay"><div class="fill"></div></div>'' @
     nl @ ''      <div class="error-msg"></div>'' @
     nl @ ''    ''\<close>

text \<open>The card \<^verbatim>\<open>renderVideoGrid\<close> creates for one item.\<close>

definition new_card :: "video \<Rightarrow> card" where
  "new_card v =
     \<lparr> dataset_videoId = video_id v, classList = [''video-card'', ''selected''],
       card_innerHTML = card_markup v, status_icon_innerHTML = [], fill_width = None,
       error_msg_textContent = [] \<rparr>"

text \<open>
  A handler that holds a card element holds its position in the grid; a position outside the
  grid is an element that is no longer in the page, and writing to it shows nothing.
\<close>

definition on_card :: "nat \<Rightarrow> (card \<Rightarrow> card) \<Rightarrow> card list \<Rightarrow> card list" where
  "on_card i f grid = (if i < length grid then grid[i := f (grid ! i)] else grid)"

text \<open>
  \<^verbatim>\<open>document.querySelector('[data-video-id="..."]')\<close> finds the first card with the
  identifier; when there is none the three functions below return at once.
\<close>

fun on_first_card :: "string \<Rightarrow> (card \<Rightarrow> card) \<Rightarrow> card list \<Rightarrow> card list" where
  "on_first_card videoId f [] = []"
| "on_first_card videoId f (c # cs) =
     (if dataset_videoId c = videoId then f c # cs else c # on_first_card videoId f cs)"

definition updateCardProgress :: "string \<Rightarrow> rat \<Rightarrow> app \<Rightarrow> app" where
  "updateCardProgress videoId percent s =
     s\<lparr> videoGrid := on_first_card videoId (\<lambda>c. c\<lparr> fill_width := Some percent \<rparr>) (videoGrid s) \<rparr>"

definition set_card_state :: "string \<Rightarrow> string \<Rightarrow> card \<Rightarrow> card" where
  "set_card_state state iconHtml c =
     c\<lparr> classList :=
          Set_add state
            (Set_delete ''error'' (Set_delete ''complete'' (Set_delete ''downloading'' (classList c)))),
        status_icon_innerHTML := (if iconHtml \<noteq> [] then iconHtml else status_icon_innerHTML c) \<rparr>"

definition updateCardState :: "string \<Rightarrow> string \<Rightarrow> string \<Rightarrow> app \<Rightarrow> app" where
  "updateCardState videoId state iconHtml s =
     s\<lparr> videoGrid := on_first_card videoId (set_card_state state iconHtml) (videoGrid s) \<rparr>"

definition setCardError :: "string \<Rightarrow> string \<Rightarrow> app \<Rightarrow> app" where
  "setCardError videoId message s =
     s\<lparr> videoGrid := on_first_card videoId (\<lambda>c. c\<lparr> error_msg_textContent := message \<rparr>) (videoGrid s) \<rparr>"

text \<open>The count under the playlist title: \<^verbatim>\<open>1 video\<close>, otherwise \<^verbatim>\<open>n videos\<close>.\<close>

definition video_count_text :: "nat \<Rightarrow> string" where
  "video_count_text n = string_of_nat n @ '' video'' @ (if n \<noteq> 1 then ''s'' else [])"

text \<open>
  The body of the \<^verbatim>\<open>forEach\<close> in the handler of the selection button: with the flag set
  every card's identifier is added and the card marked, otherwise deleted and unmarked. The
  identifiers and the class lists do not depend on each other, so the loop is written as one
  pass over each.
\<close>

definition select_cards :: "bool \<Rightarrow> card list \<Rightarrow> string list \<Rightarrow> string list" where
  "select_cards a grid ids =
     foldl (\<lambda>acc c. if a then Set_add (dataset_videoId c) acc else Set_delete (dataset_videoId c) acc)
       ids grid"

definition mark_cards :: "bool \<Rightarrow> card list \<Rightarrow> card list" where
  "mark_cards a grid =
     map (\<lambda>c. c\<lparr> classList :=
                  (if a then Set_add ''selected'' (classList c)
                   else Set_delete ''selected'' (classList c)) \<rparr>) grid"

text \<open>The selection step of \<^verbatim>\<open>toggleSelection\<close>, before the flag and the buttons.\<close>

definition flip_selected :: "string \<Rightarrow> nat \<Rightarrow> app \<Rightarrow> app" where
  "flip_selected videoId i s =
     (if Set_has videoId (selectedIds s)
      then s\<lparr> selectedIds := Set_delete videoId (selectedIds s),
              videoGrid := on_card i (\<lambda>c. c\<lparr> classList := Set_delete ''selected'' (classList c) \<rparr>) (videoGrid s) \<rparr>
      else s\<lparr> selectedIds := Set_add videoId (selectedIds s),
              videoGrid := on_card i (\<lambda>c. c\<lparr> classList := Set_add ''selected'' (classList c) \<rparr>) (videoGrid s) \<rparr>)"

text \<open>Both files print the final status line of a run the same way.\<close>

definition summary_text :: "nat \<Rightarrow> nat \<Rightarrow> string" where
  "summary_text completed errors =
     (if errors = 0 then ''All '' @ string_of_nat completed @ '' downloads complete!''
      else if completed = 0 then ''All '' @ string_of_nat errors @ '' downloads failed''
      else string_of_nat completed @ '' downloaded, '' @ string_of_nat errors @ '' failed'')"

definition summary_complete :: "nat \<Rightarrow> nat \<Rightarrow> bool \<Rightarrow> bool" where
  "summary_complete completed errors before =
     (if errors = 0 then True else if completed = 0 then before else True)"

text \<open>
  The width of the overall progress fill, \<^verbatim>\<open>((completed + errors) / total) * 100\<close> percent.
  With a total of zero JavaScript computes no number, the assignment is not a valid width and
  the style keeps its value.
\<close>

definition set_overall_width :: "nat \<Rightarrow> nat \<Rightarrow> app \<Rightarrow> app" where
  "set_overall_width resolved n s =
     (if n = 0 then s
      else s\<lparr> overallProgressFill_width := (of_nat resolved / of_nat n) * 100 \<rparr>)"

section \<open>Extraction (both files)\<close>

text \<open>
  What the request can come to: \<^verbatim>\<open>fetch\<close> rejects, the status is not 2xx and the body
  is not JSON, the status is not 2xx and the body is an object (with or without
  \<^verbatim>\<open>detail\<close>), the status is 2xx and the body is not JSON, or the status is 2xx and the
  body is decoded. The strings are the messages of the errors thrown.
\<close>

datatype extract_response =
    ExtractFetchThrows string
  | ExtractNotOkBadJson string
  | ExtractNotOk "string option"
  | ExtractOkBadJson string
  | ExtractOk extract_data

text \<open>The message the \<^verbatim>\<open>catch\<close> block shows; a decoded answer throws nothing.\<close>

definition extract_failure :: "extract_response \<Rightarrow> string option" where
  "extract_failure r =
     (case r of
        ExtractFetchThrows m \<Rightarrow> Some m
      | ExtractNotOkBadJson m \<Rightarrow> Some m
      | ExtractNotOk d \<Rightarrow> Some (or_else d ''Extraction failed'')
      | ExtractOkBadJson m \<Rightarrow> Some m
      | ExtractOk d \<Rightarrow> None)"

section \<open>public/app.js: one request per item\<close>

definition public_updateSelectionUI :: "app \<Rightarrow> app" where
  "public_updateSelectionUI s =
     s\<lparr> selectAllBtn_textContent := (if allSelected s then ''Deselect All'' else ''Select All''),
        downloadSelectedBtn_textContent :=
          ''Download Selected ('' @ string_of_nat (length (selectedIds s)) @ '')'',
        downloadSelectedBtn_disabled := (length (selectedIds s) = 0 \<or> isDownloading s) \<rparr>"

definition public_renderVideoGrid :: "app \<Rightarrow> app" where
  "public_renderVideoGrid s =
     public_updateSelectionUI (s\<lparr> videoGrid := map new_card (videos s) \<rparr>)"

definition public_extractPlaylist :: "extract_response \<Rightarrow> app \<Rightarrow> app" where
  "public_extractPlaylist resp s =
     (let u = trim (urlInput_value s) in
      if u = [] then showError ''Please enter a URL'' s
      else if \<not> startsWith u ''http''
      then showError ''Please enter a valid URL starting with http:// or https://'' s
      else
        let s1 = showSection ''loading'' ((hideError s)\<lparr> extractBtn_disabled := True \<rparr>);
            s2 = s1\<lparr> effects := effects s1 @ [PostExtract u] \<rparr>;
            s3 = (case resp of
                    ExtractOk d \<Rightarrow>
                      showSection ''results''
                        (public_renderVideoGrid
                          (s2\<lparr> videos := data_videos d,
                               selectedIds := Set_new (map video_id (data_videos d)),
                               downloadedIds := [],
                               errorIds := [],
                               allSelected := True,
                               playlistTitleEl_textContent := data_title d,
                               videoCountEl_textContent := video_count_text (length (data_videos d)) \<rparr>))
                  | _ \<Rightarrow> showError (the (extract_failure resp)) (showSection ''input'' s2))
        in s3\<lparr> extractBtn_disabled := False \<rparr>)"

definition public_toggleSelection :: "string \<Rightarrow> nat \<Rightarrow> app \<Rightarrow> app" where
  "public_toggleSelection videoId i s =
     (let s1 = flip_selected videoId i s
      in public_updateSelectionUI
           (s1\<lparr> allSelected := (length (selectedIds s1) = length (videos s1)) \<rparr>))"

text \<open>
  A click on the card at position \<open>i\<close>; \<open>on_icon\<close> says that the click hit the status icon.
  The handler carries the identifier of the item the card was made from.
\<close>

definition public_cardClick :: "nat \<Rightarrow> bool \<Rightarrow> app \<Rightarrow> app" where
  "public_cardClick i on_icon s =
     (if \<not> i < length (videoGrid s) then s
      else if on_icon then s
      else if isDownloading s then s
      else public_toggleSelection (dataset_videoId (videoGrid s ! i)) i s)"

definition public_selectAllClick :: "app \<Rightarrow> app" where
  "public_selectAllClick s =
     (if isDownloading s then s
      else
        let a = (\<not> allSelected s)
        in public_updateSelectionUI
             (s\<lparr> allSelected := a,
                 selectedIds := select_cards a (videoGrid s) (selectedIds s),
                 videoGrid := mark_cards a (videoGrid s) \<rparr>))"

definition public_newPlaylistClick :: "app \<Rightarrow> app" where
  "public_newPlaylistClick s =
     (if isDownloading s then s
      else showSection ''input''
             (s\<lparr> videos := [], selectedIds := [], downloadedIds := [], errorIds := [],
                 urlInput_value := [], downloadBar_hidden := True \<rparr>))"

definition public_formatClick :: "string \<Rightarrow> app \<Rightarrow> app" where
  "public_formatClick fmt s = (if isDownloading s then s else s\<lparr> selectedFormat := fmt \<rparr>)"

text \<open>
  What one download request can come to: \<^verbatim>\<open>fetch\<close> rejects; the status is not 2xx, with
  the \<^verbatim>\<open>detail\<close> of the body if it could be read; the status is 2xx and a later step
  throws (reading the blob, handing it to the browser); the status is 2xx and the file is
  saved, with the file name found in the \<^verbatim>\<open>Content-Disposition\<close> header, if any.
\<close>

datatype download_outcome =
    FetchThrows string
  | NotOk "string option"
  | OkThenThrows string
  | OkBlob "string option"

text \<open>The message of the error the \<^verbatim>\<open>catch\<close> block of the loop receives.\<close>

definition download_failure :: "download_outcome \<Rightarrow> string option" where
  "download_failure out =
     (case out of
        FetchThrows m \<Rightarrow> Some m
      | NotOk d \<Rightarrow> Some (or_else d ''Download failed'')
      | OkThenThrows m \<Rightarrow> Some m
      | OkBlob f \<Rightarrow> None)"

text \<open>
  One turn of the \<^verbatim>\<open>for\<close> loop of \<^verbatim>\<open>startDownloads\<close>. An identifier with no item in
  \<open>videos\<close> is passed over (\<^verbatim>\<open>continue\<close>): no request, no count, no progress.
\<close>

definition download_item :: "download_outcome \<Rightarrow> string \<Rightarrow> app \<times> counts \<Rightarrow> app \<times> counts" where
  "download_item out videoId st =
     (let s = fst st; c = snd st in
      case find (\<lambda>v. video_id v = videoId) (videos s) of
        None \<Rightarrow> (s, c)
      | Some v \<Rightarrow>
          let s1 = updateCardState videoId ''downloading'' ''&#8595;'' s;
              s2 = s1\<lparr> downloadStatus_textContent := ''Downloading: '' @ truncate (Some (title v)) 40,
                       effects := effects s1 @ [PostDownload (url v) (selectedFormat s1) (title v)] \<rparr>;
              r = (case out of
                     OkBlob f \<Rightarrow>
                       (let s3 = s2\<lparr> effects := effects s2 @
                                       [SaveBlob (case f of Some n \<Rightarrow> n
                                                  | None \<Rightarrow> title v @ ''.'' @ selectedFormat s2)],
                                     downloadedIds := Set_add videoId (downloadedIds s2) \<rparr>;
                            s4 = updateCardProgress videoId 100 (updateCardState videoId ''complete'' ''&#10003;'' s3)
                        in (s4\<lparr> downloadStatus_textContent := ''Downloaded: '' @ truncate (Some (title v)) 40 \<rparr>,
                            c\<lparr> completedCount := completedCount c + 1 \<rparr>))
                   | _ \<Rightarrow>
                       (let s3 = s2\<lparr> errorIds := Set_add videoId (errorIds s2) \<rparr>;
                            s4 = setCardError videoId (or_else (download_failure out) ''Download failed'')
                                   (updateCardState videoId ''error'' ''!'' s3)
                        in (s4, c\<lparr> errorCount := errorCount c + 1 \<rparr>)));
              s5 = fst r; c5 = snd r;
              n = completedCount c5 + errorCount c5
          in (set_overall_width n (totalCount c5)
                (s5\<lparr> overallProgress_textContent :=
                       string_of_nat n @ '' / '' @ string_of_nat (totalCount c5) \<rparr>),
              c5))"

text \<open>
  The loop: the \<open>k\<close>-th turn receives the outcome \<open>net k\<close> of its request, whatever the
  earlier turns came to.
\<close>

fun download_loop :: "(nat \<Rightarrow> download_outcome) \<Rightarrow> nat \<Rightarrow> string list \<Rightarrow> app \<times> counts \<Rightarrow> app \<times> counts" where
  "download_loop net k [] st = st"
| "download_loop net k (videoId # rest) st =
     download_loop net (Suc k) rest (download_item (net k) videoId st)"

text \<open>The statements of \<^verbatim>\<open>startDownloads\<close> before the loop, and those after it.\<close>

definition downloads_begin :: "string list \<Rightarrow> app \<Rightarrow> app \<times> counts" where
  "downloads_begin videoIds s =
     (s\<lparr> isDownloading := True,
         downloadSelectedBtn_disabled := True,
         selectAllBtn_disabled := True,
         downloadBar_hidden := False,
         downloadStatus_textContent := ''Starting downloads...'',
         overallProgress_textContent := ''0 / '' @ string_of_nat (length videoIds),
         overallProgressFill_width := 0,
         overallProgressFill_complete := False \<rparr>,
      \<lparr> completedCount = 0, errorCount = 0, totalCount = length videoIds \<rparr>)"

definition downloads_end :: "app \<times> counts \<Rightarrow> app" where
  "downloads_end st =
     (let s = fst st; c = snd st in
      s\<lparr> isDownloading := False,
         downloadSelectedBtn_disabled := False,
         selectAllBtn_disabled := False,
         downloadStatus_textContent := summary_text (completedCount c) (errorCount c),
         overallProgressFill_complete :=
           summary_complete (completedCount c) (errorCount c) (overallProgressFill_complete s) \<rparr>)"

definition startDownloads :: "(nat \<Rightarrow> download_outcome) \<Rightarrow> string list \<Rightarrow> app \<Rightarrow> app" where
  "startDownloads net videoIds s =
     downloads_end (download_loop net 0 videoIds (downloads_begin videoIds s))"

definition public_downloadSelectedClick :: "(nat \<Rightarrow> download_outcome) \<Rightarrow> app \<Rightarrow> app" where
  "public_downloadSelectedClick net s =
     (if length (selectedIds s) = 0 \<or> isDownloading s then s
      else startDownloads net (selectedIds s) s)"

section \<open>static/app.js: one event stream per run\<close>

definition static_updateSelectionUI :: "app \<Rightarrow> app" where
  "static_updateSelectionUI s =
     s\<lparr> selectAllBtn_textContent := (if allSelected s then ''Deselect All'' else ''Select All''),
        downloadSelectedBtn_textContent :=
          ''Download Selected ('' @ string_of_nat (length (selectedIds s)) @ '')'',
        downloadSelectedBtn_disabled := (length (selectedIds s) = 0) \<rparr>"

definition static_renderVideoGrid :: "app \<Rightarrow> app" where
  "static_renderVideoGrid s =
     static_updateSelectionUI
       (s\<lparr> playlistTitleEl_textContent := playlistTitle s,
           videoCountEl_textContent := video_count_text (length (videos s)),
           zipSection_hidden := True,
           videoGrid := map new_card (videos s) \<rparr>)"

definition static_extractPlaylist :: "extract_response \<Rightarrow> app \<Rightarrow> app" where
  "static_extractPlaylist resp s =
     (let u = trim (urlInput_value s) in
      if u = [] then showError ''Please enter a URL'' s
      else if \<not> startsWith u ''http''
      then showError ''Please enter a valid URL starting with http:// or https://'' s
      else
        let s1 = showSection ''loading'' ((hideError s)\<lparr> extractBtn_disabled := True \<rparr>);
            s2 = s1\<lparr> effects := effects s1 @ [PostExtract u] \<rparr>;
            s3 = (case resp of
                    ExtractOk d \<Rightarrow>
                      showSection ''results''
                        (static_renderVideoGrid
                          (s2\<lparr> sessionId := data_session_id d,
                               playlistTitle := data_title d,
                               videos := data_videos d,
                               selectedIds := Set_new (map video_id (data_videos d)),
                               downloadedIds := [],
                               errorIds := [],
                               allSelected := True \<rparr>))
                  | _ \<Rightarrow> showError (the (extract_failure resp)) (showSection ''input'' s2))
        in s3\<lparr> extractBtn_disabled := False \<rparr>)"

definition static_toggleSelection :: "string \<Rightarrow> nat \<Rightarrow> app \<Rightarrow> app" where
  "static_toggleSelection videoId i s =
     (let s1 = flip_selected videoId i s
      in static_updateSelectionUI
           (s1\<lparr> allSelected := (length (selectedIds s1) = length (videos s1)) \<rparr>))"

definition static_cardClick :: "nat \<Rightarrow> bool \<Rightarrow> app \<Rightarrow> app" where
  "static_cardClick i on_icon s =
     (if \<not> i < length (videoGrid s) then s
      else if on_icon then s
      else static_toggleSelection (dataset_videoId (videoGrid s ! i)) i s)"

text \<open>A template literal prints a missing session identifier as \<^verbatim>\<open>null\<close>.\<close>

definition session_text :: "string option \<Rightarrow> string" where
  "session_text sid = (case sid of None \<Rightarrow> ''null'' | Some t \<Rightarrow> t)"

text \<open>A click on the status icon of the card at position \<open>i\<close> opens the file of a completed item.\<close>

definition static_statusIconClick :: "nat \<Rightarrow> app \<Rightarrow> app" where
  "static_statusIconClick i s =
     (if \<not> i < length (videoGrid s) then s
      else if ''complete'' \<in> set (classList (videoGrid s ! i))
      then s\<lparr> effects := effects s @
                  [WindowOpen (''/api/file/'' @ session_text (sessionId s) @ ''/'' @
                               dataset_videoId (videoGrid s ! i))] \<rparr>
      else s)"

definition static_selectAllClick :: "app \<Rightarrow> app" where
  "static_selectAllClick s =
     (let a = (\<not> allSelected s)
      in static_updateSelectionUI
           (s\<lparr> allSelected := a,
               selectedIds := select_cards a (videoGrid s) (selectedIds s),
               videoGrid := mark_cards a (videoGrid s) \<rparr>))"

text \<open>
  The request to release the session is sent and forgotten: its promise has a
  \<^verbatim>\<open>catch\<close> handler with an empty body and no other handler, so neither its success nor
  its failure changes anything (\<open>release_settled\<close>).
\<close>

definition static_newPlaylistClick :: "app \<Rightarrow> app" where
  "static_newPlaylistClick s =
     (let s1 = (if truthy (sessionId s)
                then s\<lparr> effects := effects s @ [DeleteSession (the (sessionId s))] \<rparr>
                else s)
      in showSection ''input''
           (s1\<lparr> sessionId := None, videos := [], selectedIds := [], downloadedIds := [],
                errorIds := [], urlInput_value := [], downloadBar_hidden := True,
                zipSection_hidden := True \<rparr>))"

definition release_settled :: "bool \<Rightarrow> app \<Rightarrow> app" where
  "release_settled failed s = s"

definition static_formatClick :: "string \<Rightarrow> app \<Rightarrow> app" where
  "static_formatClick fmt s = s\<lparr> selectedFormat := fmt \<rparr>"

definition static_zipClick :: "app \<Rightarrow> app" where
  "static_zipClick s =
     s\<lparr> effects := effects s @ [WindowOpen (''/api/zip/'' @ session_text (sessionId s))] \<rparr>"

text \<open>\<^verbatim>\<open>startDownload\<close> up to the creation of the event source.\<close>

definition startDownload :: "string list \<Rightarrow> app \<Rightarrow> app \<times> stream" where
  "startDownload videoIds s =
     (s\<lparr> downloadSelectedBtn_disabled := True,
         selectAllBtn_disabled := True,
         downloadBar_hidden := False,
         zipSection_hidden := True,
         downloadStatus_textContent := ''Starting downloads...'',
         overallProgress_textContent := ''0 / '' @ string_of_nat (length videoIds),
         overallProgressFill_width := 0,
         overallProgressFill_complete := False,
         effects := effects s @ [OpenEventSource (sessionId s) videoIds (selectedFormat s)] \<rparr>,
      \<lparr> completedCount = 0, errorCount = 0, totalCount = length videoIds,
        evtSource_closed = False \<rparr>)"

definition static_downloadSelectedClick :: "app \<Rightarrow> (app \<times> stream) option" where
  "static_downloadSelectedClick s =
     (if length (selectedIds s) = 0 then None else Some (startDownload (selectedIds s) s))"

text \<open>
  \<^verbatim>\<open>evtSource.onmessage\<close>. A message that is not JSON (\<open>None\<close>) makes
  \<^verbatim>\<open>JSON.parse\<close> throw before anything is written; an event type the \<^verbatim>\<open>switch\<close>
  does not name changes nothing. A progress event without a number assigns no valid
  width.
\<close>

definition onmessage :: "sse_data option \<Rightarrow> app \<times> stream \<Rightarrow> app \<times> stream" where
  "onmessage msg st =
     (let s = fst st; r = snd st in
      case msg of
        None \<Rightarrow> st
      | Some d \<Rightarrow>
          if event_type d = ''downloading'' then
            ((updateCardState (event_video_id d) ''downloading'' ''&#8595;'' s)
               \<lparr> downloadStatus_textContent := ''Downloading: '' @ truncate (event_title d) 40 \<rparr>, r)
          else if event_type d = ''progress'' then
            (let s1 = (case event_percent d of
                         None \<Rightarrow> s
                       | Some p \<Rightarrow> updateCardProgress (event_video_id d) p s)
             in (if truthy (event_speed d)
                 then s1\<lparr> downloadStatus_textContent := ''Downloading... '' @ the (event_speed d) \<rparr>
                 else s1, r))
          else if event_type d = ''merging'' then
            (updateCardState (event_video_id d) ''downloading'' ''&#8635;'' s, r)
          else if event_type d = ''complete'' then
            (let r1 = r\<lparr> completedCount := completedCount r + 1 \<rparr>;
                 s1 = s\<lparr> downloadedIds := Set_add (event_video_id d) (downloadedIds s) \<rparr>;
                 s2 = updateCardProgress (event_video_id d) 100
                        (updateCardState (event_video_id d) ''complete'' ''&#8595;'' s1);
                 s3 = set_overall_width (completedCount r1 + errorCount r1) (totalCount r1)
                        (s2\<lparr> overallProgress_textContent :=
                               string_of_nat (completedCount r1) @ '' / '' @ string_of_nat (totalCount r1) \<rparr>)
             in (s3\<lparr> downloadStatus_textContent := ''Downloaded: '' @ truncate (event_title d) 40 \<rparr>, r1))
          else if event_type d = ''error'' then
            (let r1 = r\<lparr> errorCount := errorCount r + 1 \<rparr>;
                 s1 = s\<lparr> errorIds := Set_add (event_video_id d) (errorIds s) \<rparr>;
                 s2 = setCardError (event_video_id d) (or_else (event_message d) ''Download failed'')
                        (updateCardState (event_video_id d) ''error'' ''!'' s1)
             in (set_overall_width (completedCount r1 + errorCount r1) (totalCount r1)
                   (s2\<lparr> overallProgress_textContent :=
                          string_of_nat (completedCount r1) @ '' / '' @ string_of_nat (totalCount r1) \<rparr>),
                 r1))
          else if event_type d = ''all_complete'' then
            (let s1 = s\<lparr> downloadSelectedBtn_disabled := False,
                         selectAllBtn_disabled := False,
                         downloadStatus_textContent := summary_text (completedCount r) (errorCount r),
                         overallProgressFill_complete :=
                           summary_complete (completedCount r) (errorCount r) (overallProgressFill_complete s) \<rparr>
             in (if length (downloadedIds s1) > 0
                 then s1\<lparr> zipSubtitle_textContent :=
                             string_of_nat (length (downloadedIds s1)) @ '' video'' @
                             (if length (downloadedIds s1) \<noteq> 1 then ''s'' else []) @
                             '' ready to download'',
                           zipSection_hidden := False \<rparr>
                 else s1,
                 r\<lparr> evtSource_closed := True \<rparr>))
          else st)"

text \<open>\<^verbatim>\<open>evtSource.onerror\<close>: the transport failed.\<close>

definition onerror :: "app \<times> stream \<Rightarrow> app \<times> stream" where
  "onerror st =
     ((fst st)\<lparr> downloadStatus_textContent := ''Connection lost. Refresh if downloads didn't complete.'',
                downloadSelectedBtn_disabled := False,
                selectAllBtn_disabled := False \<rparr>,
      (snd st)\<lparr> evtSource_closed := True \<rparr>)"

text \<open>
  What the browser hands to the two handlers: a message (\<open>Inl\<close>) or a transport error
  (\<open>Inr ()\<close>), and nothing once the source is closed.
\<close>

definition deliver :: "sse_data option + unit \<Rightarrow> app \<times> stream \<Rightarrow> app \<times> stream" where
  "deliver ev st =
     (if evtSource_closed (snd st) then st
      else case ev of Inl msg \<Rightarrow> onmessage msg st | Inr u \<Rightarrow> onerror st)"

definition deliver_all :: "(sse_data option + unit) list \<Rightarrow> app \<times> stream \<Rightarrow> app \<times> stream" where
  "deliver_all evs st = foldl (\<lambda>acc ev. deliver ev acc) st evs"

text \<open>The event objects of the service, by type.\<close>

definition sse :: "string \<Rightarrow> string \<Rightarrow> sse_data" where
  "sse ty videoId =
     \<lparr> event_type = ty, event_video_id = videoId, event_title = None, event_percent = None,
       event_speed = None, event_message = None \<rparr>"

section \<open>Sessions: what the user and the service can do, in any order\<close>

text \<open>
  The events of a session of \<^verbatim>\<open>public/app.js\<close>: typing into the address field, a
  request to extract together with what the service answers, clicks on a card, on the
  selection button, on the new-playlist button and on a format button, and a click on the
  download button together with the outcomes of the requests of that run. The run is one
  step: while it waits for an answer the handlers of the cards and of the selection, the
  new-playlist, the format and the download button return at once, because
  \<open>isDownloading\<close> is set, and the controls of \<^verbatim>\<open>extractPlaylist\<close> are in the input
  section, which is hidden while the results are shown.
\<close>

datatype public_event =
    P_input string
  | P_extract extract_response
  | P_cardClick nat bool
  | P_selectAll
  | P_newPlaylist
  | P_format string
  | P_download "nat \<Rightarrow> download_outcome"

fun public_step :: "public_event \<Rightarrow> app \<Rightarrow> app" where
  "public_step (P_input t) s = s\<lparr> urlInput_value := t \<rparr>"
| "public_step (P_extract r) s = public_extractPlaylist r s"
| "public_step (P_cardClick i on_icon) s = public_cardClick i on_icon s"
| "public_step P_selectAll s = public_selectAllClick s"
| "public_step P_newPlaylist s = public_newPlaylistClick s"
| "public_step (P_format fmt) s = public_formatClick fmt s"
| "public_step (P_download net) s = public_downloadSelectedClick net s"

definition public_run :: "public_event list \<Rightarrow> app \<Rightarrow> app" where
  "public_run es s = foldl (\<lambda>acc e. public_step e acc) s es"

text \<open>
  The events of a session of \<^verbatim>\<open>static/app.js\<close>. Every click on the download button
  opens one more event source; \<open>S_stream k ev\<close> is the browser handing \<open>ev\<close> to the
  \<open>k\<close>-th source opened so far. Nothing stops the user between two events of a stream.
\<close>

datatype static_event =
    S_input string
  | S_extract extract_response
  | S_cardClick nat bool
  | S_iconClick nat
  | S_selectAll
  | S_newPlaylist
  | S_format string
  | S_download
  | S_stream nat "sse_data option + unit"
  | S_zip

fun static_step :: "static_event \<Rightarrow> app \<times> stream list \<Rightarrow> app \<times> stream list" where
  "static_step (S_input t) (s, rs) = (s\<lparr> urlInput_value := t \<rparr>, rs)"
| "static_step (S_extract r) (s, rs) = (static_extractPlaylist r s, rs)"
| "static_step (S_cardClick i on_icon) (s, rs) = (static_cardClick i on_icon s, rs)"
| "static_step (S_iconClick i) (s, rs) = (static_statusIconClick i s, rs)"
| "static_step S_selectAll (s, rs) = (static_selectAllClick s, rs)"
| "static_step S_newPlaylist (s, rs) = (static_newPlaylistClick s, rs)"
| "static_step (S_format fmt) (s, rs) = (static_formatClick fmt s, rs)"
| "static_step S_download (s, rs) =
     (case static_downloadSelectedClick s of
        None \<Rightarrow> (s, rs)
      | Some st \<Rightarrow> (fst st, rs @ [snd st]))"
| "static_step (S_stream k ev) (s, rs) =
     (if k < length rs
      then (let st = deliver ev (s, rs ! k) in (fst st, rs[k := snd st]))
      else (s, rs))"
| "static_step S_zip (s, rs) = (static_zipClick s, rs)"

definition static_run :: "static_event list \<Rightarrow> app \<times> stream list \<Rightarrow> app \<times> stream list" where
  "static_run es st = foldl (\<lambda>acc e. static_step e acc) st es"






text \<open>
  The part of the state the selection button shows and depends on, and what holds of it
  whenever a playlist with at least one item is loaded: the cards are those of the items,
  the selection holds identifiers of items only, the flag says whether all are selected,
  and the button's label follows the flag.
\<close>

definition selection_view :: "app \<Rightarrow> video list \<times> string list \<times> bool \<times> string \<times> string list" where
  "selection_view s =
     (videos s, selectedIds s, allSelected s, selectAllBtn_textContent s,
      map dataset_videoId (videoGrid s))"


section \<open>Reading markup back\<close>

text \<open>
  To say what a card shows, the markup has to be read the way the browser's parser reads
  it. The template uses tags, double-quoted attribute values and text, and the parser of the
  HTML standard treats them as follows: in text only \<open><\<close> (a tag starts) and \<open>&\<close> (a
  character reference) are special; inside a tag \<open>>\<close> ends it and a quote starts an
  attribute value; inside a quoted value only the same quote (the value ends) and \<open>&\<close> are
  special. \<open>pieces\<close> cuts markup into its text runs and attribute values;
  \<open>decode_refs\<close> replaces the character references the two escaping functions produce
  and leaves every other character as it is.
\<close>

datatype mode = Data | Tag | AttrDQ | AttrSQ

datatype piece = TextRun string | AttrVal string

fun pieces :: "mode \<Rightarrow> string \<Rightarrow> string \<Rightarrow> piece list" where
  "pieces m acc [] = (if m = Data \<and> acc \<noteq> [] then [TextRun (rev acc)] else [])"
| "pieces Data acc (c # cs) =
     (if c = CHR ''<'' then (if acc = [] then [] else [TextRun (rev acc)]) @ pieces Tag [] cs
      else pieces Data (c # acc) cs)"
| "pieces Tag acc (c # cs) =
     (if c = CHR ''>'' then pieces Data [] cs
      else if c = CHR 0x22 then pieces AttrDQ [] cs
      else if c = CHR 0x27 then pieces AttrSQ [] cs
      else pieces Tag [] cs)"
| "pieces AttrDQ acc (c # cs) =
     (if c = CHR 0x22 then AttrVal (rev acc) # pieces Tag [] cs
      else pieces AttrDQ (c # acc) cs)"
| "pieces AttrSQ acc (c # cs) =
     (if c = CHR 0x27 then AttrVal (rev acc) # pieces Tag [] cs
      else pieces AttrSQ (c # acc) cs)"




section \<open>Facts about the sets\<close>

lemma set_Set_add [simp]: "set (Set_add x xs) = insert x (set xs)"
  by (auto simp: Set_add_def)

lemma set_Set_delete [simp]: "set (Set_delete x xs) = set xs - {x}"
  by (simp add: Set_delete_def)

lemma distinct_Set_add [simp]: "distinct (Set_add x xs) = distinct xs"
  by (simp add: Set_add_def)

lemma distinct_Set_delete [simp]: "distinct xs \<Longrightarrow> distinct (Set_delete x xs)"
  by (simp add: Set_delete_def distinct_removeAll)

lemma length_Set_delete_member:
  "distinct xs \<Longrightarrow> x \<in> set xs \<Longrightarrow> Suc (length (Set_delete x xs)) = length xs"
  by (simp add: Set_delete_def distinct_remove1_removeAll [symmetric] length_remove1)
     (metis One_nat_def Suc_pred length_pos_if_in_set)

lemma Set_delete_add_absent: "x \<notin> set xs \<Longrightarrow> Set_delete x (Set_add x xs) = xs"
  by (simp add: Set_delete_def Set_add_def)

lemma selectedIds_public_updateSelectionUI [simp]:
  "selectedIds (public_updateSelectionUI s) = selectedIds s"
  by (simp add: public_updateSelectionUI_def)

lemma selectedIds_static_updateSelectionUI [simp]:
  "selectedIds (static_updateSelectionUI s) = selectedIds s"
  by (simp add: static_updateSelectionUI_def)

lemma selectedIds_flip_selected:
  "selectedIds (flip_selected v i s) =
     (if v \<in> set (selectedIds s) then Set_delete v (selectedIds s) else Set_add v (selectedIds s))"
  by (simp add: flip_selected_def Set_has_def)

lemma selectedIds_public_toggleSelection:
  "selectedIds (public_toggleSelection v i s) =
     (if v \<in> set (selectedIds s) then Set_delete v (selectedIds s) else Set_add v (selectedIds s))"
  by (simp add: public_toggleSelection_def Let_def selectedIds_flip_selected)

lemma selectedIds_static_toggleSelection:
  "selectedIds (static_toggleSelection v i s) =
     (if v \<in> set (selectedIds s) then Set_delete v (selectedIds s) else Set_add v (selectedIds s))"
  by (simp add: static_toggleSelection_def Let_def selectedIds_flip_selected)

lemma toggle_twice_set:
  "set (if v \<in> set (if v \<in> set xs then Set_delete v xs else Set_add v xs)
        then Set_delete v (if v \<in> set xs then Set_delete v xs else Set_add v xs)
        else Set_add v (if v \<in> set xs then Set_delete v xs else Set_add v xs)) = set xs"
  by auto

lemma toggle_twice_distinct:
  "distinct xs \<Longrightarrow>
   distinct (if v \<in> set (if v \<in> set xs then Set_delete v xs else Set_add v xs)
        then Set_delete v (if v \<in> set xs then Set_delete v xs else Set_add v xs)
        else Set_add v (if v \<in> set xs then Set_delete v xs else Set_add v xs))
   \<and> length (if v \<in> set (if v \<in> set xs then Set_delete v xs else Set_add v xs)
        then Set_delete v (if v \<in> set xs then Set_delete v xs else Set_add v xs)
        else Set_add v (if v \<in> set xs then Set_delete v xs else Set_add v xs)) = length xs"
proof (cases "v \<in> set xs")
  case True
  assume d: "distinct xs"
  from d True have "Suc (length (Set_delete v xs)) = length xs"
    by (rule length_Set_delete_member)
  with d True show ?thesis by (simp add: Set_add_def)
next
  case False
  then show "distinct xs \<Longrightarrow> ?thesis" by (simp add: Set_delete_add_absent)
qed

lemma string_of_nat_Suc_0 [simp]: "string_of_nat (Suc 0) = ''1''"
  by (simp add: string_of_nat.simps digit_char_def)

lemma extract_failure_cases:
  "(\<forall>d. resp \<noteq> ExtractOk d) \<Longrightarrow>
   (case resp of ExtractOk d \<Rightarrow> f d | _ \<Rightarrow> g) = g"
  by (cases resp) auto

section \<open>The download loop of public/app.js\<close>

lemma videoGrid_fields [simp]:
  "videos (updateCardState i st ic s) = videos s"
  "downloadedIds (updateCardState i st ic s) = downloadedIds s"
  "errorIds (updateCardState i st ic s) = errorIds s"
  "selectedIds (updateCardState i st ic s) = selectedIds s"
  "effects (updateCardState i st ic s) = effects s"
  "selectedFormat (updateCardState i st ic s) = selectedFormat s"
  "videos (updateCardProgress i p s) = videos s"
  "downloadedIds (updateCardProgress i p s) = downloadedIds s"
  "errorIds (updateCardProgress i p s) = errorIds s"
  "selectedIds (updateCardProgress i p s) = selectedIds s"
  "videos (setCardError i m s) = videos s"
  "downloadedIds (setCardError i m s) = downloadedIds s"
  "errorIds (setCardError i m s) = errorIds s"
  "selectedIds (setCardError i m s) = selectedIds s"
  "videos (set_overall_width a b s) = videos s"
  "downloadedIds (set_overall_width a b s) = downloadedIds s"
  "errorIds (set_overall_width a b s) = errorIds s"
  "selectedIds (set_overall_width a b s) = selectedIds s"
  "overallProgress_textContent (set_overall_width a b s) = overallProgress_textContent s"
  by (simp_all add: updateCardState_def updateCardProgress_def setCardError_def set_overall_width_def)

lemma download_item_skip:
  "videoId \<notin> video_id ` set (videos (fst st)) \<Longrightarrow> download_item out videoId st = st"
proof -
  assume "videoId \<notin> video_id ` set (videos (fst st))"
  then have "find (\<lambda>v. video_id v = videoId) (videos (fst st)) = None"
    by (auto simp: find_None_iff)
  then show ?thesis by (simp add: download_item_def Let_def)
qed

lemma find_video:
  "videoId \<in> video_id ` set (videos s) \<Longrightarrow> \<exists>v. find (\<lambda>v. video_id v = videoId) (videos s) = Some v"
  by (cases "find (\<lambda>v. video_id v = videoId) (videos s)") (auto simp: find_None_iff)

lemma download_item_ok:
  assumes "videoId \<in> video_id ` set (videos (fst st))" and "download_failure out = None"
  shows "videos (fst (download_item out videoId st)) = videos (fst st)"
    and "selectedIds (fst (download_item out videoId st)) = selectedIds (fst st)"
    and "downloadedIds (fst (download_item out videoId st)) = Set_add videoId (downloadedIds (fst st))"
    and "errorIds (fst (download_item out videoId st)) = errorIds (fst st)"
    and "completedCount (snd (download_item out videoId st)) = completedCount (snd st) + 1"
    and "errorCount (snd (download_item out videoId st)) = errorCount (snd st)"
    and "totalCount (snd (download_item out videoId st)) = totalCount (snd st)"
proof -
  obtain v where v: "find (\<lambda>v. video_id v = videoId) (videos (fst st)) = Some v"
    using find_video [OF assms(1)] by blast
  obtain f where f: "out = OkBlob f"
    using assms(2) by (cases out) (simp_all add: download_failure_def)
  show "videos (fst (download_item out videoId st)) = videos (fst st)"
    and "selectedIds (fst (download_item out videoId st)) = selectedIds (fst st)"
    and "downloadedIds (fst (download_item out videoId st)) = Set_add videoId (downloadedIds (fst st))"
    and "errorIds (fst (download_item out videoId st)) = errorIds (fst st)"
    and "completedCount (snd (download_item out videoId st)) = completedCount (snd st) + 1"
    and "errorCount (snd (download_item out videoId st)) = errorCount (snd st)"
    and "totalCount (snd (download_item out videoId st)) = totalCount (snd st)"
    by (simp_all add: download_item_def Let_def v f)
qed

lemma download_item_failed:
  assumes "videoId \<in> video_id ` set (videos (fst st))" and "download_failure out \<noteq> None"
  shows "videos (fst (download_item out videoId st)) = videos (fst st)"
    and "selectedIds (fst (download_item out videoId st)) = selectedIds (fst st)"
    and "downloadedIds (fst (download_item out videoId st)) = downloadedIds (fst st)"
    and "errorIds (fst (download_item out videoId st)) = Set_add videoId (errorIds (fst st))"
    and "completedCount (snd (download_item out videoId st)) = completedCount (snd st)"
    and "errorCount (snd (download_item out videoId st)) = errorCount (snd st) + 1"
    and "totalCount (snd (download_item out videoId st)) = totalCount (snd st)"
proof -
  obtain v where v: "find (\<lambda>v. video_id v = videoId) (videos (fst st)) = Some v"
    using find_video [OF assms(1)] by blast
  have f: "\<And>g h. (case out of OkBlob x \<Rightarrow> g x | _ \<Rightarrow> h) = h"
    using assms(2) by (cases out) (simp_all add: download_failure_def)
  show "videos (fst (download_item out videoId st)) = videos (fst st)"
    and "selectedIds (fst (download_item out videoId st)) = selectedIds (fst st)"
    and "downloadedIds (fst (download_item out videoId st)) = downloadedIds (fst st)"
    and "errorIds (fst (download_item out videoId st)) = Set_add videoId (errorIds (fst st))"
    and "completedCount (snd (download_item out videoId st)) = completedCount (snd st)"
    and "errorCount (snd (download_item out videoId st)) = errorCount (snd st) + 1"
    and "totalCount (snd (download_item out videoId st)) = totalCount (snd st)"
    by (simp_all add: download_item_def Let_def v f)
qed


lemma download_loop_append:
  "download_loop net k (xs @ ys) st = download_loop net (k + length xs) ys (download_loop net k xs st)"
  by (induction xs arbitrary: k st) simp_all

lemma download_loop_take_Suc:
  "n < length ids \<Longrightarrow>
   download_loop net 0 (take (Suc n) ids) st = download_item (net n) (ids ! n) (download_loop net 0 (take n ids) st)"
  by (simp add: take_Suc_conv_app_nth download_loop_append)


lemma download_prefix:
  "N \<le> length ids \<Longrightarrow>
   videos (fst (download_loop net 0 (take N ids) st0)) = videos (fst st0)
   \<and> selectedIds (fst (download_loop net 0 (take N ids) st0)) = selectedIds (fst st0)
   \<and> totalCount (snd (download_loop net 0 (take N ids) st0)) = totalCount (snd st0)
   \<and> set (downloadedIds (fst (download_loop net 0 (take N ids) st0))) =
       set (downloadedIds (fst st0)) \<union>
       {ids ! j | j. j < N \<and> ids ! j \<in> video_id ` set (videos (fst st0)) \<and> download_failure (net j) = None}
   \<and> set (errorIds (fst (download_loop net 0 (take N ids) st0))) =
       set (errorIds (fst st0)) \<union>
       {ids ! j | j. j < N \<and> ids ! j \<in> video_id ` set (videos (fst st0)) \<and> download_failure (net j) \<noteq> None}
   \<and> completedCount (snd (download_loop net 0 (take N ids) st0)) +
       errorCount (snd (download_loop net 0 (take N ids) st0)) =
       completedCount (snd st0) + errorCount (snd st0) +
       length (filter (\<lambda>x. x \<in> video_id ` set (videos (fst st0))) (take N ids))"
proof (induction N)
  case 0
  show ?case by simp
next
  case (Suc N)
  let ?p = "download_loop net 0 (take N ids) st0"
  from Suc.prems have lt: "N < length ids" by simp
  with Suc.IH have ih:
    "videos (fst ?p) = videos (fst st0)"
    "selectedIds (fst ?p) = selectedIds (fst st0)"
    "totalCount (snd ?p) = totalCount (snd st0)"
    "set (downloadedIds (fst ?p)) = set (downloadedIds (fst st0)) \<union>
       {ids ! j | j. j < N \<and> ids ! j \<in> video_id ` set (videos (fst st0)) \<and> download_failure (net j) = None}"
    "set (errorIds (fst ?p)) = set (errorIds (fst st0)) \<union>
       {ids ! j | j. j < N \<and> ids ! j \<in> video_id ` set (videos (fst st0)) \<and> download_failure (net j) \<noteq> None}"
    "completedCount (snd ?p) + errorCount (snd ?p) =
       completedCount (snd st0) + errorCount (snd st0) +
       length (filter (\<lambda>x. x \<in> video_id ` set (videos (fst st0))) (take N ids))"
    by simp_all
  have step: "download_loop net 0 (take (Suc N) ids) st0 = download_item (net N) (ids ! N) ?p"
    using lt by (rule download_loop_take_Suc)
  have tk: "take (Suc N) ids = take N ids @ [ids ! N]"
    using lt by (rule take_Suc_conv_app_nth)
  have dl_split:
    "{ids ! j | j. j < Suc N \<and> ids ! j \<in> video_id ` set (videos (fst st0)) \<and> download_failure (net j) = None}
     = {ids ! j | j. j < N \<and> ids ! j \<in> video_id ` set (videos (fst st0)) \<and> download_failure (net j) = None}
       \<union> (if ids ! N \<in> video_id ` set (videos (fst st0)) \<and> download_failure (net N) = None
          then {ids ! N} else {})"
    by (auto simp: less_Suc_eq)
  have err_split:
    "{ids ! j | j. j < Suc N \<and> ids ! j \<in> video_id ` set (videos (fst st0)) \<and> download_failure (net j) \<noteq> None}
     = {ids ! j | j. j < N \<and> ids ! j \<in> video_id ` set (videos (fst st0)) \<and> download_failure (net j) \<noteq> None}
       \<union> (if ids ! N \<in> video_id ` set (videos (fst st0)) \<and> download_failure (net N) \<noteq> None
          then {ids ! N} else {})"
    by (auto simp: less_Suc_eq)
  show ?case
  proof (cases "ids ! N \<in> video_id ` set (videos (fst st0))")
    case False
    then have same: "download_item (net N) (ids ! N) ?p = ?p"
      by (simp add: download_item_skip ih(1))
    show ?thesis
      unfolding step same dl_split err_split
      using False ih by (simp add: tk)
  next
    case True
    then have mem: "ids ! N \<in> video_id ` set (videos (fst ?p))" by (simp add: ih(1))
    show ?thesis
    proof (cases "download_failure (net N) = None")
      case ok: True
      show ?thesis
        unfolding step dl_split err_split download_item_ok [OF mem ok]
        using True ok ih by (auto simp add: tk)
    next
      case bad: False
      show ?thesis
        unfolding step dl_split err_split download_item_failed [OF mem bad]
        using True bad ih by (auto simp add: tk)
    qed
  qed
qed


section \<open>Toggling twice\<close>

text \<open>
  C9. Toggling the selection of an identifier twice in succession gives back the selection
  set: the same members, in both files and for every identifier, in the playlist or not.
  The set is kept in insertion order; with no duplicates before, there are none after and
  the size is the same. (An identifier that was selected is taken out and added again, so it
  is then the last one of the order.)
\<close>

theorem toggle_twice_restores_selection:
  "set (selectedIds (public_toggleSelection v j (public_toggleSelection v i s))) = set (selectedIds s)
   \<and> set (selectedIds (static_toggleSelection v j (static_toggleSelection v i s))) = set (selectedIds s)
   \<and> (distinct (selectedIds s) \<longrightarrow>
        distinct (selectedIds (public_toggleSelection v j (public_toggleSelection v i s)))
        \<and> length (selectedIds (public_toggleSelection v j (public_toggleSelection v i s))) = length (selectedIds s)
        \<and> distinct (selectedIds (static_toggleSelection v j (static_toggleSelection v i s)))
        \<and> length (selectedIds (static_toggleSelection v j (static_toggleSelection v i s))) = length (selectedIds s))"
  using toggle_twice_set [of v "selectedIds s"] toggle_twice_distinct [of "selectedIds s" v]
  by (simp only: selectedIds_public_toggleSelection selectedIds_static_toggleSelection) simp

theorem toggle_twice_restores_selection_witness:
  "distinct (selectedIds (initial\<lparr> selectedIds := [''a'', ''b''] \<rparr>))
   \<and> set (selectedIds (public_toggleSelection ''a'' 0 (public_toggleSelection ''a'' 0
            (initial\<lparr> selectedIds := [''a'', ''b''] \<rparr>)))) = {''a'', ''b''}
   \<and> length (selectedIds (static_toggleSelection ''a'' 0 (static_toggleSelection ''a'' 0
            (initial\<lparr> selectedIds := [''a'', ''b''] \<rparr>)))) = 2"
  using toggle_twice_restores_selection [of "''a''" 0 0 "initial\<lparr> selectedIds := [''a'', ''b''] \<rparr>"]
  by (simp add: initial_def)

section \<open>A failed extraction\<close>

text \<open>
  C10. When the extraction request is answered with a status that is not 2xx, or the request
  or the decoding of a body throws, \<^verbatim>\<open>extractPlaylist\<close> leaves the session state as it
  was: \<open>videos\<close>, \<open>selectedIds\<close>, \<open>downloadedIds\<close>, \<open>errorIds\<close>, \<open>allSelected\<close>
  in both files, and \<open>sessionId\<close> and \<open>playlistTitle\<close> in \<^verbatim>\<open>static/app.js\<close>. (The page
  does change: the input section and the error line are shown.)
\<close>

theorem failed_extraction_keeps_session_state:
  assumes "\<forall>d. resp \<noteq> ExtractOk d"
  shows "videos (public_extractPlaylist resp s) = videos s
   \<and> selectedIds (public_extractPlaylist resp s) = selectedIds s
   \<and> downloadedIds (public_extractPlaylist resp s) = downloadedIds s
   \<and> errorIds (public_extractPlaylist resp s) = errorIds s
   \<and> allSelected (public_extractPlaylist resp s) = allSelected s
   \<and> videos (static_extractPlaylist resp s) = videos s
   \<and> selectedIds (static_extractPlaylist resp s) = selectedIds s
   \<and> downloadedIds (static_extractPlaylist resp s) = downloadedIds s
   \<and> errorIds (static_extractPlaylist resp s) = errorIds s
   \<and> allSelected (static_extractPlaylist resp s) = allSelected s
   \<and> sessionId (static_extractPlaylist resp s) = sessionId s
   \<and> playlistTitle (static_extractPlaylist resp s) = playlistTitle s"
  using assms
  by (simp add: public_extractPlaylist_def static_extractPlaylist_def Let_def
        extract_failure_cases showError_def showSection_def hideError_def)

theorem failed_extraction_keeps_session_state_witness:
  "(\<forall>d. ExtractNotOk (Some ''gone'') \<noteq> ExtractOk d)
   \<and> selectedIds (static_extractPlaylist (ExtractNotOk (Some ''gone''))
        (initial\<lparr> urlInput_value := ''http://x'', selectedIds := [''a''], sessionId := Some ''s1'' \<rparr>)) = [''a'']
   \<and> sessionId (static_extractPlaylist (ExtractNotOk (Some ''gone''))
        (initial\<lparr> urlInput_value := ''http://x'', selectedIds := [''a''], sessionId := Some ''s1'' \<rparr>)) = Some ''s1''
   \<and> errorMsg_textContent (static_extractPlaylist (ExtractNotOk (Some ''gone''))
        (initial\<lparr> urlInput_value := ''http://x'', selectedIds := [''a''], sessionId := Some ''s1'' \<rparr>)) = ''gone''"
proof -
  have h: "\<forall>d. ExtractNotOk (Some ''gone'') \<noteq> ExtractOk d" by simp
  have e: "errorMsg_textContent (static_extractPlaylist (ExtractNotOk (Some ''gone''))
        (initial\<lparr> urlInput_value := ''http://x'', selectedIds := [''a''], sessionId := Some ''s1'' \<rparr>)) = ''gone''"
    by (simp add: static_extractPlaylist_def initial_def trim_def is_js_space_def startsWith_def
          Let_def showError_def showSection_def hideError_def extract_failure_def or_else_def)
  show ?thesis
    using failed_extraction_keeps_session_state [OF h,
      of "initial\<lparr> urlInput_value := ''http://x'', selectedIds := [''a''], sessionId := Some ''s1'' \<rparr>"] h e
    by (simp add: initial_def)
qed


section \<open>The event stream\<close>

text \<open>
  C6. When the transport of the event stream fails, \<^verbatim>\<open>onerror\<close> closes the event source,
  writes the connection-lost line into the status, and enables the download and the selection
  button again. It writes to no card and to none of the sets and counters, so every item
  keeps the status it last reported; and the closed source delivers nothing more.
\<close>

theorem transport_failure_is_fatal_and_marks_nothing:
  "evtSource_closed (snd (onerror st))
   \<and> downloadStatus_textContent (fst (onerror st)) = ''Connection lost. Refresh if downloads didn't complete.''
   \<and> downloadSelectedBtn_disabled (fst (onerror st)) = False
   \<and> selectAllBtn_disabled (fst (onerror st)) = False
   \<and> videoGrid (fst (onerror st)) = videoGrid (fst st)
   \<and> downloadedIds (fst (onerror st)) = downloadedIds (fst st)
   \<and> errorIds (fst (onerror st)) = errorIds (fst st)
   \<and> selectedIds (fst (onerror st)) = selectedIds (fst st)
   \<and> completedCount (snd (onerror st)) = completedCount (snd st)
   \<and> errorCount (snd (onerror st)) = errorCount (snd st)
   \<and> deliver (Inr ()) (fst st, (snd st)\<lparr> evtSource_closed := False \<rparr>) = onerror st
   \<and> deliver ev (onerror st) = onerror st"
  by (simp add: onerror_def deliver_def)

theorem transport_failure_is_fatal_and_marks_nothing_witness:
  "videoGrid (fst (onerror (startDownload [''a''] (initial\<lparr> videoGrid := [new_card \<lparr> video_id = ''a'', title = ''t'', url = ''u'', thumbnail = None, duration_str = None, uploader = None \<rparr>] \<rparr>))))
     = [new_card \<lparr> video_id = ''a'', title = ''t'', url = ''u'', thumbnail = None, duration_str = None, uploader = None \<rparr>]
   \<and> evtSource_closed (snd (onerror (startDownload [''a''] (initial\<lparr> videoGrid := [new_card \<lparr> video_id = ''a'', title = ''t'', url = ''u'', thumbnail = None, duration_str = None, uploader = None \<rparr>] \<rparr>))))"
  using transport_failure_is_fatal_and_marks_nothing
    [of "startDownload [''a''] (initial\<lparr> videoGrid := [new_card \<lparr> video_id = ''a'', title = ''t'', url = ''u'', thumbnail = None, duration_str = None, uploader = None \<rparr>] \<rparr>)"]
  by (simp add: startDownload_def initial_def)


text \<open>
  C4. A run of \<^verbatim>\<open>static/app.js\<close> over the two identifiers \<open>A\<close> and \<open>B\<close> that receives
  \<^verbatim>\<open>downloading(A)\<close>, \<^verbatim>\<open>progress(A, 50)\<close>, \<^verbatim>\<open>complete(A)\<close>, \<^verbatim>\<open>error(B)\<close> and
  \<^verbatim>\<open>all_complete\<close> ends with the status line \<^verbatim>\<open>1 downloaded, 1 failed\<close> and the ZIP
  section shown, whatever the state before the run and the optional fields of the events.
\<close>

theorem push_stream_two_item_scenario:
  "downloadStatus_textContent (fst (deliver_all
       [Inl (Some ((sse ''downloading'' A)\<lparr> event_title := t1 \<rparr>)),
        Inl (Some ((sse ''progress'' A)\<lparr> event_percent := Some 50, event_speed := sp \<rparr>)),
        Inl (Some ((sse ''complete'' A)\<lparr> event_title := t2 \<rparr>)),
        Inl (Some ((sse ''error'' B)\<lparr> event_message := m \<rparr>)),
        Inl (Some (sse ''all_complete'' x))]
       (startDownload [A, B] s))) = ''1 downloaded, 1 failed''
   \<and> zipSection_hidden (fst (deliver_all
       [Inl (Some ((sse ''downloading'' A)\<lparr> event_title := t1 \<rparr>)),
        Inl (Some ((sse ''progress'' A)\<lparr> event_percent := Some 50, event_speed := sp \<rparr>)),
        Inl (Some ((sse ''complete'' A)\<lparr> event_title := t2 \<rparr>)),
        Inl (Some ((sse ''error'' B)\<lparr> event_message := m \<rparr>)),
        Inl (Some (sse ''all_complete'' x))]
       (startDownload [A, B] s))) = False
   \<and> completedCount (snd (deliver_all
       [Inl (Some ((sse ''downloading'' A)\<lparr> event_title := t1 \<rparr>)),
        Inl (Some ((sse ''progress'' A)\<lparr> event_percent := Some 50, event_speed := sp \<rparr>)),
        Inl (Some ((sse ''complete'' A)\<lparr> event_title := t2 \<rparr>)),
        Inl (Some ((sse ''error'' B)\<lparr> event_message := m \<rparr>)),
        Inl (Some (sse ''all_complete'' x))]
       (startDownload [A, B] s))) = 1
   \<and> errorCount (snd (deliver_all
       [Inl (Some ((sse ''downloading'' A)\<lparr> event_title := t1 \<rparr>)),
        Inl (Some ((sse ''progress'' A)\<lparr> event_percent := Some 50, event_speed := sp \<rparr>)),
        Inl (Some ((sse ''complete'' A)\<lparr> event_title := t2 \<rparr>)),
        Inl (Some ((sse ''error'' B)\<lparr> event_message := m \<rparr>)),
        Inl (Some (sse ''all_complete'' x))]
       (startDownload [A, B] s))) = 1"
  by (auto simp add: deliver_all_def deliver_def onmessage_def startDownload_def sse_def Let_def
        summary_text_def set_overall_width_def updateCardState_def updateCardProgress_def
        setCardError_def Set_add_def split: option.split)


theorem push_stream_two_item_scenario_witness:
  "downloadStatus_textContent (fst (deliver_all
       [Inl (Some ((sse ''downloading'' ''A'')\<lparr> event_title := Some ''Song'' \<rparr>)),
        Inl (Some ((sse ''progress'' ''A'')\<lparr> event_percent := Some 50, event_speed := None \<rparr>)),
        Inl (Some ((sse ''complete'' ''A'')\<lparr> event_title := Some ''Song'' \<rparr>)),
        Inl (Some ((sse ''error'' ''B'')\<lparr> event_message := None \<rparr>)),
        Inl (Some (sse ''all_complete'' []))]
       (startDownload [''A'', ''B''] initial))) = ''1 downloaded, 1 failed''
   \<and> zipSection_hidden (fst (deliver_all
       [Inl (Some ((sse ''downloading'' ''A'')\<lparr> event_title := Some ''Song'' \<rparr>)),
        Inl (Some ((sse ''progress'' ''A'')\<lparr> event_percent := Some 50, event_speed := None \<rparr>)),
        Inl (Some ((sse ''complete'' ''A'')\<lparr> event_title := Some ''Song'' \<rparr>)),
        Inl (Some ((sse ''error'' ''B'')\<lparr> event_message := None \<rparr>)),
        Inl (Some (sse ''all_complete'' []))]
       (startDownload [''A'', ''B''] initial))) = False"
  using push_stream_two_item_scenario
    [where A = "''A''" and B = "''B''" and s = initial and ?t1.0 = "Some ''Song''" and ?t2.0 = "Some ''Song''"
       and sp = None and m = None and x = "[]"]
  by simp

section \<open>A new playlist\<close>

text \<open>
  C8. The new-playlist button empties the selection, the completed and the error set. In
  \<^verbatim>\<open>static/app.js\<close> it sends exactly one request to delete the session when there is a
  session identifier and none when there is not, and nothing follows from how that request
  ends. In \<^verbatim>\<open>public/app.js\<close> there is no session and no request; the button works when no
  run is in flight.
\<close>

theorem new_playlist_clears_sets_and_releases_session:
  "selectedIds (static_newPlaylistClick s) = []
   \<and> downloadedIds (static_newPlaylistClick s) = []
   \<and> errorIds (static_newPlaylistClick s) = []
   \<and> sessionId (static_newPlaylistClick s) = None
   \<and> effects (static_newPlaylistClick s) =
       effects s @ (if truthy (sessionId s) then [DeleteSession (the (sessionId s))] else [])
   \<and> release_settled failed (static_newPlaylistClick s) = static_newPlaylistClick s
   \<and> selectedIds (public_newPlaylistClick (s\<lparr> isDownloading := False \<rparr>)) = []
   \<and> downloadedIds (public_newPlaylistClick (s\<lparr> isDownloading := False \<rparr>)) = []
   \<and> errorIds (public_newPlaylistClick (s\<lparr> isDownloading := False \<rparr>)) = []
   \<and> effects (public_newPlaylistClick s) = effects s"
  by (simp add: static_newPlaylistClick_def public_newPlaylistClick_def showSection_def
        release_settled_def)

theorem new_playlist_clears_sets_and_releases_session_witness:
  "effects (static_newPlaylistClick (initial\<lparr> sessionId := Some ''s1'', selectedIds := [''a''], downloadedIds := [''a''] \<rparr>))
     = [DeleteSession ''s1'']
   \<and> effects (static_newPlaylistClick (initial\<lparr> sessionId := None, selectedIds := [''a''] \<rparr>)) = []
   \<and> downloadedIds (static_newPlaylistClick (initial\<lparr> sessionId := Some ''s1'', selectedIds := [''a''], downloadedIds := [''a''] \<rparr>)) = []"
  using new_playlist_clears_sets_and_releases_session
    [of "initial\<lparr> sessionId := Some ''s1'', selectedIds := [''a''], downloadedIds := [''a''] \<rparr>"]
    new_playlist_clears_sets_and_releases_session
    [of "initial\<lparr> sessionId := None, selectedIds := [''a''] \<rparr>"]
  by (simp add: initial_def truthy_def)



section \<open>Progress of a sequential run\<close>

lemma string_of_nat_0 [simp]: "string_of_nat 0 = ''0''"
  by (simp add: string_of_nat.simps digit_char_def)

lemma downloads_begin_fields [simp]:
  "videos (fst (downloads_begin ids s)) = videos s"
  "selectedIds (fst (downloads_begin ids s)) = selectedIds s"
  "downloadedIds (fst (downloads_begin ids s)) = downloadedIds s"
  "errorIds (fst (downloads_begin ids s)) = errorIds s"
  "completedCount (snd (downloads_begin ids s)) = 0"
  "errorCount (snd (downloads_begin ids s)) = 0"
  "totalCount (snd (downloads_begin ids s)) = length ids"
  "overallProgress_textContent (fst (downloads_begin ids s)) = ''0 / '' @ string_of_nat (length ids)"
  "overallProgressFill_width (fst (downloads_begin ids s)) = 0"
  by (simp_all add: downloads_begin_def)

lemma downloads_end_fields [simp]:
  "videos (downloads_end st) = videos (fst st)"
  "selectedIds (downloads_end st) = selectedIds (fst st)"
  "downloadedIds (downloads_end st) = downloadedIds (fst st)"
  "errorIds (downloads_end st) = errorIds (fst st)"
  "isDownloading (downloads_end st) = False"
  "overallProgress_textContent (downloads_end st) = overallProgress_textContent (fst st)"
  "overallProgressFill_width (downloads_end st) = overallProgressFill_width (fst st)"
  "downloadStatus_textContent (downloads_end st) = summary_text (completedCount (snd st)) (errorCount (snd st))"
  by (simp_all add: downloads_end_def Let_def)





section \<open>Sessions\<close>

lemma public_run_Nil [simp]: "public_run [] s = s"
  by (simp add: public_run_def)

lemma public_run_Cons [simp]: "public_run (e # es) s = public_run es (public_step e s)"
  by (simp add: public_run_def)

lemma static_run_Nil [simp]: "static_run [] st = st"
  by (simp add: static_run_def)

lemma static_run_Cons [simp]: "static_run (e # es) st = static_run es (static_step e st)"
  by (simp add: static_run_def)

lemma trim_http [simp]: "trim ''http://x'' = ''http://x''"
  by (simp add: trim_def is_js_space_def)

lemma startsWith_http [simp]: "startsWith ''http://x'' ''http''"
  by (simp add: startsWith_def)

lemma startDownloads_fields [simp]:
  "selectedIds (startDownloads net ids s) = selectedIds s"
  "videos (startDownloads net ids s) = videos s"
  "isDownloading (startDownloads net ids s) = False"
  using download_prefix [OF order_refl, where ids = ids and net = net and ?st0.0 = "downloads_begin ids s"]
  by (simp_all add: startDownloads_def)

section \<open>The completed and the error set\<close>








lemma startDownload_sets [simp]:
  "downloadedIds (fst (startDownload ids s)) = downloadedIds s"
  "errorIds (fst (startDownload ids s)) = errorIds s"
  "selectedIds (fst (startDownload ids s)) = selectedIds s"
  "videos (fst (startDownload ids s)) = videos s"
  by (simp_all add: startDownload_def)









section \<open>Identifiers that are not in the playlist\<close>

text \<open>
  C2 as stated fails: neither \<^verbatim>\<open>toggleSelection\<close> nor the \<^verbatim>\<open>complete\<close> and
  \<^verbatim>\<open>error\<close> cases of the event handler look the identifier up in \<open>videos\<close>. Here the
  service reports a completion for an identifier the playlist does not have, and it is
  recorded.
\<close>

theorem unknown_identifier_counterexample:
  "''zz'' \<notin> video_id ` set (videos (fst (static_run
       [S_input ''http://x'',
        S_extract (ExtractOk \<lparr> data_session_id = Some ''s1'', data_title = ''P'', data_videos =
          [\<lparr> video_id = ''a'', title = ''A'', url = ''ua'', thumbnail = None, duration_str = None, uploader = None \<rparr>] \<rparr>),
        S_download] (initial, []))))
   \<and> downloadedIds (fst (static_run
       [S_input ''http://x'',
        S_extract (ExtractOk \<lparr> data_session_id = Some ''s1'', data_title = ''P'', data_videos =
          [\<lparr> video_id = ''a'', title = ''A'', url = ''ua'', thumbnail = None, duration_str = None, uploader = None \<rparr>] \<rparr>),
        S_download] (initial, []))) = []
   \<and> downloadedIds (fst (static_run
       [S_input ''http://x'',
        S_extract (ExtractOk \<lparr> data_session_id = Some ''s1'', data_title = ''P'', data_videos =
          [\<lparr> video_id = ''a'', title = ''A'', url = ''ua'', thumbnail = None, duration_str = None, uploader = None \<rparr>] \<rparr>),
        S_download,
        S_stream 0 (Inl (Some (sse ''complete'' ''zz'')))] (initial, []))) = [''zz'']
   \<and> selectedIds (public_toggleSelection ''zz'' 0 initial) \<noteq> selectedIds initial"
  by (simp add: initial_def static_extractPlaylist_def Let_def showSection_def hideError_def
        static_renderVideoGrid_def static_updateSelectionUI_def Set_new_def Set_add_def
        static_downloadSelectedClick_def startDownload_def deliver_def onmessage_def sse_def
        updateCardState_def updateCardProgress_def set_overall_width_def new_card_def
        selectedIds_public_toggleSelection)

text \<open>
  C2, amended. A turn of the download loop of \<^verbatim>\<open>public/app.js\<close> for an identifier with no
  item in the playlist changes nothing at all. \<^verbatim>\<open>toggleSelection\<close> flips the membership of
  any identifier in the selection set, and a \<^verbatim>\<open>complete\<close> or \<^verbatim>\<open>error\<close> event of
  \<^verbatim>\<open>static/app.js\<close> adds any identifier to the completed or the error set; each of them
  leaves the other two sets as they are.
\<close>

theorem unknown_identifier_is_not_looked_up:
  "(videoId \<notin> video_id ` set (videos s) \<longrightarrow> download_item out videoId (s, c) = (s, c))
   \<and> selectedIds (public_toggleSelection videoId i s) =
       (if videoId \<in> set (selectedIds s) then Set_delete videoId (selectedIds s)
        else Set_add videoId (selectedIds s))
   \<and> downloadedIds (public_toggleSelection videoId i s) = downloadedIds s
   \<and> errorIds (public_toggleSelection videoId i s) = errorIds s
   \<and> selectedIds (static_toggleSelection videoId i s) =
       (if videoId \<in> set (selectedIds s) then Set_delete videoId (selectedIds s)
        else Set_add videoId (selectedIds s))
   \<and> downloadedIds (static_toggleSelection videoId i s) = downloadedIds s
   \<and> errorIds (static_toggleSelection videoId i s) = errorIds s
   \<and> downloadedIds (fst (onmessage (Some (d\<lparr> event_type := ''complete'' \<rparr>)) (s, r))) =
       Set_add (event_video_id d) (downloadedIds s)
   \<and> errorIds (fst (onmessage (Some (d\<lparr> event_type := ''complete'' \<rparr>)) (s, r))) = errorIds s
   \<and> selectedIds (fst (onmessage (Some (d\<lparr> event_type := ''complete'' \<rparr>)) (s, r))) = selectedIds s
   \<and> errorIds (fst (onmessage (Some (d\<lparr> event_type := ''error'' \<rparr>)) (s, r))) =
       Set_add (event_video_id d) (errorIds s)
   \<and> downloadedIds (fst (onmessage (Some (d\<lparr> event_type := ''error'' \<rparr>)) (s, r))) = downloadedIds s
   \<and> selectedIds (fst (onmessage (Some (d\<lparr> event_type := ''error'' \<rparr>)) (s, r))) = selectedIds s"
proof -
  have skip: "videoId \<notin> video_id ` set (videos s) \<longrightarrow> download_item out videoId (s, c) = (s, c)"
    using download_item_skip [of videoId "(s, c)" out] by simp
  have pub: "downloadedIds (public_toggleSelection videoId i s) = downloadedIds s"
    "errorIds (public_toggleSelection videoId i s) = errorIds s"
    by (simp_all add: public_toggleSelection_def public_updateSelectionUI_def flip_selected_def Let_def)
  have sta: "downloadedIds (static_toggleSelection videoId i s) = downloadedIds s"
    "errorIds (static_toggleSelection videoId i s) = errorIds s"
    by (simp_all add: static_toggleSelection_def static_updateSelectionUI_def flip_selected_def Let_def)
  have ev: "downloadedIds (fst (onmessage (Some (d\<lparr> event_type := ''complete'' \<rparr>)) (s, r))) =
       Set_add (event_video_id d) (downloadedIds s)"
    "errorIds (fst (onmessage (Some (d\<lparr> event_type := ''complete'' \<rparr>)) (s, r))) = errorIds s"
    "selectedIds (fst (onmessage (Some (d\<lparr> event_type := ''complete'' \<rparr>)) (s, r))) = selectedIds s"
    "errorIds (fst (onmessage (Some (d\<lparr> event_type := ''error'' \<rparr>)) (s, r))) =
       Set_add (event_video_id d) (errorIds s)"
    "downloadedIds (fst (onmessage (Some (d\<lparr> event_type := ''error'' \<rparr>)) (s, r))) = downloadedIds s"
    "selectedIds (fst (onmessage (Some (d\<lparr> event_type := ''error'' \<rparr>)) (s, r))) = selectedIds s"
    by (simp_all add: onmessage_def Let_def)
  from skip selectedIds_public_toggleSelection [of videoId i s] pub
       selectedIds_static_toggleSelection [of videoId i s] sta ev
  show ?thesis by (intro conjI)
qed

theorem unknown_identifier_is_not_looked_up_witness:
  "''zz'' \<notin> video_id ` set (videos initial)
   \<and> download_item (OkBlob None) ''zz'' (initial, \<lparr> completedCount = 0, errorCount = 0, totalCount = 1 \<rparr>)
       = (initial, \<lparr> completedCount = 0, errorCount = 0, totalCount = 1 \<rparr>)
   \<and> selectedIds (public_toggleSelection ''zz'' 0 initial) = [''zz'']"
  using unknown_identifier_is_not_looked_up
    [where videoId = "''zz''" and s = initial and out = "OkBlob None" and i = 0
       and c = "\<lparr> completedCount = 0, errorCount = 0, totalCount = 1 \<rparr>"]
  by (simp add: initial_def Set_add_def)


section \<open>The label of the selection button\<close>




lemma dataset_new_card [simp]: "map dataset_videoId (map new_card vs) = map video_id vs"
  by (simp add: new_card_def comp_def)


lemma dataset_on_first_card:
  "(\<And>c. dataset_videoId (f c) = dataset_videoId c) \<Longrightarrow>
   map dataset_videoId (on_first_card v f grid) = map dataset_videoId grid"
  by (induction grid) simp_all

lemma dataset_mark_cards [simp]: "map dataset_videoId (mark_cards a grid) = map dataset_videoId grid"
  by (simp add: mark_cards_def comp_def)



lemma selection_view_cards [simp]:
  "selection_view (updateCardState v st ic s) = selection_view s"
  "selection_view (updateCardProgress v p s) = selection_view s"
  "selection_view (setCardError v m s) = selection_view s"
  "selection_view (set_overall_width a b s) = selection_view s"
  by (simp_all add: selection_view_def updateCardState_def updateCardProgress_def setCardError_def
        set_overall_width_def set_card_state_def dataset_on_first_card)

lemma selection_view_updates [simp]:
  "selection_view (s\<lparr> downloadStatus_textContent := a \<rparr>) = selection_view s"
  "selection_view (s\<lparr> effects := b \<rparr>) = selection_view s"
  "selection_view (s\<lparr> downloadedIds := c \<rparr>) = selection_view s"
  "selection_view (s\<lparr> errorIds := d \<rparr>) = selection_view s"
  "selection_view (s\<lparr> overallProgress_textContent := e \<rparr>) = selection_view s"
  "selection_view (s\<lparr> urlInput_value := f \<rparr>) = selection_view s"
  "selection_view (s\<lparr> selectedFormat := g \<rparr>) = selection_view s"
  "selection_view (s\<lparr> extractBtn_disabled := h \<rparr>) = selection_view s"
  "selection_view (s\<lparr> downloadSelectedBtn_disabled := i \<rparr>) = selection_view s"
  "selection_view (s\<lparr> selectAllBtn_disabled := j \<rparr>) = selection_view s"
  "selection_view (s\<lparr> zipSection_hidden := k \<rparr>) = selection_view s"
  "selection_view (s\<lparr> zipSubtitle_textContent := l \<rparr>) = selection_view s"
  "selection_view (s\<lparr> overallProgressFill_complete := m \<rparr>) = selection_view s"
  "selection_view (s\<lparr> isDownloading := n \<rparr>) = selection_view s"
  "selection_view (s\<lparr> downloadBar_hidden := p \<rparr>) = selection_view s"
  "selection_view (s\<lparr> overallProgressFill_width := q \<rparr>) = selection_view s"
  "selection_view (showSection nm s) = selection_view s"
  "selection_view (showError msg s) = selection_view s"
  "selection_view (hideError s) = selection_view s"
  by (simp_all add: selection_view_def showSection_def showError_def hideError_def)

lemma selection_view_download_item [simp]:
  "selection_view (fst (download_item out v st)) = selection_view (fst st)"
  by (simp add: download_item_def Let_def split: option.split download_outcome.split)

lemma selection_view_download_loop [simp]:
  "selection_view (fst (download_loop net k ids st)) = selection_view (fst st)"
  by (induction ids arbitrary: k st) simp_all

lemma selection_view_startDownloads [simp]:
  "selection_view (startDownloads net ids s) = selection_view s"
  by (simp add: startDownloads_def downloads_end_def downloads_begin_def Let_def)

lemma selection_view_deliver [simp]:
  "selection_view (fst (deliver ev st)) = selection_view (fst st)"
  by (simp add: deliver_def onmessage_def onerror_def Let_def split: sum.split option.split)

lemma selection_view_startDownload [simp]:
  "selection_view (fst (startDownload ids s)) = selection_view s"
  by (simp add: startDownload_def)




lemma dataset_new_card_one [simp]: "dataset_videoId (new_card v) = video_id v"
  by (simp add: new_card_def)































section \<open>What a card shows\<close>

lemma replace_all_Nil [simp]: "replace_all c r [] = []"
  by (simp add: replace_all_def)

lemma replace_all_Cons [simp]:
  "replace_all c r (x # xs) = (if x = c then r else [x]) @ replace_all c r xs"
  by (simp add: replace_all_def)

lemma replace_all_append [simp]:
  "replace_all c r (xs @ ys) = replace_all c r xs @ replace_all c r ys"
  by (simp add: replace_all_def)

lemma escapeAttr_Nil [simp]: "escapeAttr [] = []"
  by (simp add: escapeAttr_def)

lemma escapeAttr_Cons:
  \<open>escapeAttr (c # t) =
     (if c = CHR ''&'' then ''&amp;''
      else if c = CHR 0x22 then ''&quot;''
      else if c = CHR 0x27 then ''&#39;''
      else if c = CHR ''<'' then ''&lt;''
      else if c = CHR ''>'' then ''&gt;''
      else [c]) @ escapeAttr t\<close>
  by (simp add: escapeAttr_def)

lemma escapeHtml_Nil [simp]: "escapeHtml [] = []"
  by (simp add: escapeHtml_def)

lemma escapeHtml_Cons: "escapeHtml (c # t) = serialize_text_char c @ escapeHtml t"
  by (simp add: escapeHtml_def)

lemma escapeAttr_has_no_delimiter:
  "CHR 0x22 \<notin> set (escapeAttr t) \<and> CHR 0x27 \<notin> set (escapeAttr t)
   \<and> CHR ''<'' \<notin> set (escapeAttr t) \<and> CHR ''>'' \<notin> set (escapeAttr t)"
  by (induction t) (simp_all add: escapeAttr_Cons)

lemma escapeHtml_has_no_tag:
  "CHR ''<'' \<notin> set (escapeHtml t) \<and> CHR ''>'' \<notin> set (escapeHtml t)"
  by (induction t) (simp_all add: escapeHtml_Cons serialize_text_char_def)

lemma escapeHtml_empty [simp]: "(escapeHtml t = []) = (t = [])"
  by (cases t) (simp_all add: escapeHtml_Cons serialize_text_char_def)





lemma pieces_Data_text:
  "CHR ''<'' \<notin> set xs \<Longrightarrow> pieces Data acc (xs @ ys) = pieces Data (rev xs @ acc) ys"
  by (induction xs arbitrary: acc) auto

lemma pieces_AttrDQ_value:
  "CHR 0x22 \<notin> set xs \<Longrightarrow> pieces AttrDQ acc (xs @ ys) = pieces AttrDQ (rev xs @ acc) ys"
  by (induction xs arbitrary: acc) auto

lemma pieces_escapeHtml [simp]:
  "pieces Data acc (escapeHtml t @ ys) = pieces Data (rev (escapeHtml t) @ acc) ys"
  by (rule pieces_Data_text) (simp add: escapeHtml_has_no_tag)

lemma pieces_escapeAttr [simp]:
  "pieces AttrDQ acc (escapeAttr t @ ys) = pieces AttrDQ (rev (escapeAttr t) @ acc) ys"
  by (rule pieces_AttrDQ_value) (simp add: escapeAttr_has_no_delimiter)





end
